theory Spec2Isabelle
  imports Main "HOL-Library.Word"
begin

section \<open>The console client of libchess (src/client.cpp)\<close>

text \<open>
  The client talks to four collaborators that live outside \<^verbatim>\<open>client.cpp\<close>: the board and
  engine, the renderer, the game console and the command factory. Every method of the
  client is embedded as a function that returns, next to its result and the updated
  client fields, the list of calls it makes, in program order. The list also records the
  accesses to the client's own mutable fields and the scoped acquisition and release of
  \<^verbatim>\<open>m_mutex\<close>, one entry per statement of the source.
\<close>

subsection \<open>Coordinates\<close>

text \<open>
  Modelled from the spec: the coordinate type is declared in a header that is not part of
  the sources at hand. It holds two signed integers, supports addition and has a taxicab
  length, the sum of the absolute components. The arithmetic that \<^verbatim>\<open>client.cpp\<close> itself
  performs on \<^verbatim>\<open>int32_t\<close> and \<^verbatim>\<open>size_t\<close> values stays between 0 and 16 (lemma
  \<open>local_positions_small\<close> below), where machine integers and \<^typ>\<open>int\<close> agree.
\<close>

datatype coord = coord (coord_x: int) (coord_y: int)

definition coord_add :: "coord \<Rightarrow> coord \<Rightarrow> coord" where
  "coord_add a b = coord (coord_x a + coord_x b) (coord_y a + coord_y b)"

definition taxicab_length :: "coord \<Rightarrow> int" where
  "taxicab_length c = \<bar>coord_x c\<bar> + \<bar>coord_y c\<bar>"

text \<open>The remainder operator \<^verbatim>\<open>%\<close> of C++ truncates towards zero.\<close>

definition c_rem :: "int \<Rightarrow> int \<Rightarrow> int" where
  "c_rem a b = sgn a * (\<bar>a\<bar> mod \<bar>b\<bar>)"

text \<open>
  Modelled from the spec: \<^verbatim>\<open>board::width\<close> is a constant of the board header; the board
  geometry has the fixed width 8.
\<close>

definition board_width :: nat where
  "board_width = 8"

subsection \<open>Calls and collaborators\<close>

type_synonym u32 = "32 word"
type_synonym wchar_t = int
type_synonym handle = nat

text \<open>
  \<open>Render\<close> is \<^verbatim>\<open>renderer::render(position, glyph, fg, bg)\<close>; the two colours are optional
  arguments, \<open>None\<close> where the call leaves them to their defaults.
\<close>

datatype 'b call =
    Mutex_lock
  | Mutex_unlock
  | Engine_set_board 'b
  | Engine_get_piece coord
  | Store_should_quit bool
  | Load_should_quit
  | Add_key_callback
  | Remove_key_callback handle
  | Game_console_create
  | Process_keystroke char
  | Set_accept_input bool
  | Add_alias string
  | Set_callback
  | Render (render_pos: coord) (render_glyph: wchar_t)
      (render_fg: "u32 option") (render_bg: "u32 option")

text \<open>
  What the collaborators return. \<open>board_create\<close> is \<^verbatim>\<open>board::create\<close>, \<open>None\<close> for the null
  pointer of a rejected position string; \<open>engine_get_piece\<close> is the piece an engine holding
  the given board writes through the out parameter of \<^verbatim>\<open>get_piece\<close>; \<open>serialize_piece\<close> is
  \<^verbatim>\<open>util::serialize_piece\<close>; \<open>key_callback_handle\<close> is the handle that
  \<^verbatim>\<open>renderer::add_key_callback\<close> hands out.
\<close>

record ('b, 'p) collaborators =
  board_create :: "string \<Rightarrow> 'b option"
  board_create_default :: 'b
  engine_get_piece :: "'b \<Rightarrow> coord \<Rightarrow> 'p"
  serialize_piece :: "'p \<Rightarrow> char option"
  color_black :: u32
  color_white :: u32
  key_callback_handle :: handle

text \<open>
  The cast \<^verbatim>\<open>(wchar_t)character\<close>. It keeps the value of every 7-bit character; the
  piece letters and the blank are 7-bit.
\<close>

definition wchar_of_char :: "char \<Rightarrow> wchar_t" where
  "wchar_of_char c = of_char c"

subsection \<open>Board rendering\<close>

text \<open>The first loop nest of \<^verbatim>\<open>redraw_board_frame\<close>: the separator lines.\<close>

definition frame_lines :: "coord \<Rightarrow> 'b call list" where
  "frame_lines offset =
     concat (map (\<lambda>i. concat (map (\<lambda>j.
       (let coord_0 = int i * 2;
            coord_1 = 1 + int j * 2
        in [Render (coord_add offset (coord coord_0 coord_1)) 0x2551 None None,
            Render (coord_add offset (coord coord_1 coord_0)) 0x2550 None None]))
       [0..<board_width])) [0..<board_width + 1])"

text \<open>The second loop nest: the inner four-way intersections.\<close>

definition frame_intersections :: "coord \<Rightarrow> 'b call list" where
  "frame_intersections offset =
     concat (map (\<lambda>i. map (\<lambda>j.
       (let x = 2 + int i * 2;
            y = 2 + int j * 2
        in Render (coord_add offset (coord x y)) 0x256c None None))
       [0..<board_width - 1]) [0..<board_width - 1])"

definition frame_corners :: "coord \<Rightarrow> 'b call list" where
  "frame_corners offset =
     [Render (coord_add offset (coord 0 0)) 0x2554 None None,
      Render (coord_add offset (coord (int board_width * 2) 0)) 0x2557 None None,
      Render (coord_add offset (coord 0 (int board_width * 2))) 0x255a None None,
      Render (coord_add offset (coord (int board_width * 2) (int board_width * 2)))
        0x255d None None]"

text \<open>The last loop: the T-shaped intersections on the four edges.\<close>

definition frame_edges :: "coord \<Rightarrow> 'b call list" where
  "frame_edges offset =
     concat (map (\<lambda>i.
       (let c = 2 + int i * 2
        in [Render (coord_add offset (coord c 0)) 0x2566 None None,
            Render (coord_add offset (coord c (int board_width * 2))) 0x2569 None None,
            Render (coord_add offset (coord 0 c)) 0x2560 None None,
            Render (coord_add offset (coord (int board_width * 2) c)) 0x2563 None None]))
       [0..<board_width - 1])"

definition redraw_board_frame :: "coord \<Rightarrow> 'b call list" where
  "redraw_board_frame offset =
     frame_lines offset @ frame_intersections offset @ frame_corners offset
       @ frame_edges offset"

text \<open>
  The body of the piece loop of \<^verbatim>\<open>redraw_board\<close> for the loop variables \<open>x\<close> and \<open>y\<close>:
  the render call it ends with.
\<close>

definition tile_render ::
  "('b, 'p) collaborators \<Rightarrow> 'b \<Rightarrow> coord \<Rightarrow> int \<Rightarrow> int \<Rightarrow> 'b call" where
  "tile_render D engine offset x y =
     (let local = coord x y;
          is_tile_white = (c_rem (taxicab_length local) 2 \<noteq> 0);
          fg = (if is_tile_white then color_black D else color_white D);
          bg = (if is_tile_white then color_white D else color_black D);
          piece = engine_get_piece D engine local;
          character = (case serialize_piece D piece of Some c \<Rightarrow> c | None \<Rightarrow> CHR '' '');
          global = coord_add offset
                     (coord (1 + x * 2) (1 + (int board_width - (y + 1)) * 2))
      in Render global (wchar_of_char character) (Some fg) (Some bg))"

definition draw_pieces :: "('b, 'p) collaborators \<Rightarrow> 'b \<Rightarrow> coord \<Rightarrow> 'b call list" where
  "draw_pieces D engine offset =
     concat (map (\<lambda>x. concat (map (\<lambda>y.
       [Engine_get_piece (coord (int x) (int y)),
        tile_render D engine offset (int x) (int y)])
       [0..<board_width])) [0..<board_width])"

definition redraw_board :: "('b, 'p) collaborators \<Rightarrow> 'b \<Rightarrow> coord \<Rightarrow> 'b call list" where
  "redraw_board D engine offset =
     redraw_board_frame offset @ draw_pieces D engine offset"

definition redraw :: "('b, 'p) collaborators \<Rightarrow> 'b \<Rightarrow> 'b call list" where
  "redraw D engine = redraw_board D engine (coord 0 0)"

subsection \<open>The client\<close>

text \<open>
  The mutable fields of the client. \<open>m_engine\<close> is the board the engine currently holds.
  The console handle \<^verbatim>\<open>m_console\<close> and the mutex \<^verbatim>\<open>m_mutex\<close> carry no value of their
  own here: their use shows in the calls.
\<close>

record 'b client =
  m_engine :: 'b
  m_key_callback :: handle
  m_should_quit :: bool

definition client_ctor :: "('b, 'p) collaborators \<Rightarrow> 'b client \<times> 'b call list" where
  "client_ctor D =
     (let board = board_create_default D;
          key_callback = key_callback_handle D
      in (\<lparr>m_engine = board, m_key_callback = key_callback, m_should_quit = False\<rparr>,
          [Engine_set_board board, Add_key_callback, Store_should_quit False,
           Game_console_create]))"

definition client_dtor :: "'b client \<Rightarrow> 'b call list" where
  "client_dtor c = [Remove_key_callback (m_key_callback c)]"

definition load_fen ::
  "('b, 'p) collaborators \<Rightarrow> string \<Rightarrow> 'b client \<Rightarrow> bool \<times> 'b client \<times> 'b call list" where
  "load_fen D fen c =
     (case board_create D fen of
        None \<Rightarrow> (False, c, [Mutex_lock, Mutex_unlock])
      | Some board \<Rightarrow>
          (True, c\<lparr>m_engine := board\<rparr>, [Mutex_lock, Engine_set_board board, Mutex_unlock]))"

definition should_quit :: "'b client \<Rightarrow> bool \<times> 'b call list" where
  "should_quit c = (m_should_quit c, [Mutex_lock, Load_should_quit, Mutex_unlock])"

text \<open>
  The key callback that the constructor registers. What the console does with the
  keystroke is outside \<^verbatim>\<open>client.cpp\<close>.
\<close>

definition key_callback :: "char \<Rightarrow> 'b call list" where
  "key_callback c = [Mutex_lock, Process_keystroke c, Mutex_unlock]"

definition client_key_callback :: "char \<Rightarrow> 'b call list" where
  "client_key_callback c = key_callback c"

subsection \<open>Commands\<close>

text \<open>
  A command receives its arguments and the client. It either returns or leaves with an
  exception; in both cases the fields it has written and the calls it has made stay.
\<close>

datatype 'e outcome = Returned | Thrown 'e

type_synonym ('b, 'e) command =
  "string list \<Rightarrow> 'b client \<Rightarrow> 'e outcome \<times> 'b client \<times> 'b call list"

definition command_quit :: "('b, 'e) command" where
  "command_quit args c = (Returned, c\<lparr>m_should_quit := True\<rparr>, [Store_should_quit True])"

text \<open>The constructor and the destructor of the scoped \<^verbatim>\<open>console_lock\<close>.\<close>

definition console_lock_ctor :: "'b call list" where
  "console_lock_ctor = [Set_accept_input False]"

definition console_lock_dtor :: "'b call list" where
  "console_lock_dtor = [Set_accept_input True]"

text \<open>
  The macro \<^verbatim>\<open>BIND_CLIENT_COMMAND\<close>: the \<^verbatim>\<open>console_lock\<close> is a local object of the
  closure, so its destructor runs when the command returns and when it throws.
\<close>

definition BIND_CLIENT_COMMAND :: "('b, 'e) command \<Rightarrow> ('b, 'e) command" where
  "BIND_CLIENT_COMMAND func args c =
     (let (result, c', calls) = func args c
      in (result, c', console_lock_ctor @ calls @ console_lock_dtor))"

definition register_commands :: "'b call list" where
  "register_commands = [Add_alias ''quit'', Set_callback]"

text \<open>The callback that \<^verbatim>\<open>register_commands\<close> binds to the alias \<^verbatim>\<open>quit\<close>.\<close>

definition quit_callback :: "('b, 'e) command" where
  "quit_callback = BIND_CLIENT_COMMAND command_quit"

subsection \<open>Creation\<close>

definition create ::
  "('b, 'p) collaborators \<Rightarrow> string option \<Rightarrow> 'b client option \<times> 'b call list" where
  "create D fen =
     (let (new_client, calls0) = client_ctor D;
          (client', calls1) =
             (case fen of
                None \<Rightarrow> (Some new_client, [])
              | Some position \<Rightarrow>
                  (let (loaded, c, calls) = load_fen D position new_client
                   in if \<not> loaded then (None, calls @ client_dtor c)
                      else (Some c, calls)))
      in case client' of
           None \<Rightarrow> (None, calls0 @ calls1)
         | Some c \<Rightarrow>
             (Some c,
              calls0 @ calls1 @ register_commands @ redraw D (m_engine c)
                @ [Set_accept_input True]))"

subsection \<open>Reading a list of calls\<close>

text \<open>The calls that read or write the state the client owns.\<close>

fun is_access :: "'b call \<Rightarrow> bool" where
  "is_access (Engine_set_board b) = True"
| "is_access (Engine_get_piece p) = True"
| "is_access (Store_should_quit v) = True"
| "is_access Load_should_quit = True"
| "is_access (Process_keystroke k) = True"
| "is_access other = False"

text \<open>
  \<open>guarded held cs\<close>: running through \<open>cs\<close> with the mutex initially held or not, every
  access happens while the mutex is held.
\<close>

fun guarded :: "bool \<Rightarrow> 'b call list \<Rightarrow> bool" where
  "guarded held [] = True"
| "guarded held (Mutex_lock # cs) = guarded True cs"
| "guarded held (Mutex_unlock # cs) = guarded False cs"
| "guarded held (c # cs) = ((if is_access c then held else True) \<and> guarded held cs)"

text \<open>
  \<open>mutex_held_after held cs\<close>: whether the mutex is held once the calls \<open>cs\<close> are made,
  given whether it was held before them.
\<close>

fun mutex_held_after :: "bool \<Rightarrow> 'b call list \<Rightarrow> bool" where
  "mutex_held_after held [] = held"
| "mutex_held_after held (Mutex_lock # cs) = mutex_held_after True cs"
| "mutex_held_after held (Mutex_unlock # cs) = mutex_held_after False cs"
| "mutex_held_after held (c # cs) = mutex_held_after held cs"

text \<open>
  Modelled from the spec: the console gateway keeps an accept-input flag that
  \<^verbatim>\<open>set_accept_input\<close> overwrites. \<open>accept_input_after flag cs\<close> is the flag after the
  calls \<open>cs\<close>.
\<close>

fun accept_input_after :: "bool \<Rightarrow> 'b call list \<Rightarrow> bool" where
  "accept_input_after flag [] = flag"
| "accept_input_after flag (Set_accept_input v # cs) = accept_input_after v cs"
| "accept_input_after flag (c # cs) = accept_input_after flag cs"

fun is_render :: "'b call \<Rightarrow> bool" where
  "is_render (Render p g fg bg) = True"
| "is_render other = False"

text \<open>A concrete set of collaborators, on which the theorems below are instantiated.\<close>

definition example_collaborators :: "(nat, nat) collaborators" where
  "example_collaborators =
     \<lparr>board_create = (\<lambda>fen. if fen = ''8/8/8/8/8/8/8/8 w - - 0 1'' then Some 1 else None),
      board_create_default = 0,
      engine_get_piece = (\<lambda>board p. if board = 0 \<and> coord_y p = 1 then 1 else 0),
      serialize_piece = (\<lambda>piece. if piece = 1 then Some CHR ''P'' else None),
      color_black = 0,
      color_white = 0xFFFFFF,
      key_callback_handle = 3\<rparr>"

text \<open>The calls that write the accept-input flag of the console.\<close>

fun sets_accept_input :: "'b call \<Rightarrow> bool" where
  "sets_accept_input (Set_accept_input v) = True"
| "sets_accept_input other = False"

text \<open>
  The dispatcher invoking one command several times, once per argument list, each
  invocation on the client the previous one left. An exception ends the run.
\<close>

fun run_commands ::
  "('b, 'e) command \<Rightarrow> string list list \<Rightarrow> 'b client \<Rightarrow> 'e outcome \<times> 'b client \<times> 'b call list"
  where
  "run_commands func [] c = (Returned, c, [])"
| "run_commands func (args # rest) c =
     (case func args c of
        (Thrown e, c', calls) \<Rightarrow> (Thrown e, c', calls)
      | (Returned, c', calls) \<Rightarrow>
          (case run_commands func rest c' of
             (result, c'', calls') \<Rightarrow> (result, c'', calls @ calls')))"

text \<open>A command that reads a square off the board and leaves with an exception.\<close>

definition example_failing_command :: "(nat, string) command" where
  "example_failing_command args c =
     (Thrown ''no such square'', c, [Engine_get_piece (coord 8 8)])"

section \<open>Properties\<close>

subsection \<open>Auxiliary facts about the rendering loops\<close>

lemma upt_numerals:
  "[0..<7] = [0, 1, 2, 3, 4, 5, 6]"
  "[0..<8] = [0, 1, 2, 3, 4, 5, 6, 7]"
  "[0..<9] = [0, 1, 2, 3, 4, 5, 6, 7, 8]"
  by code_simp+

lemmas frame_defs = redraw_board_frame_def frame_lines_def frame_intersections_def
  frame_corners_def frame_edges_def Let_def board_width_def

lemma c_rem_nonneg: "0 \<le> a \<Longrightarrow> c_rem a 2 = a mod 2"
  by (cases "a = 0") (simp_all add: c_rem_def)

lemma tile_render_eq:
  "0 \<le> x \<Longrightarrow> 0 \<le> y \<Longrightarrow>
   tile_render D e offset x y =
     Render (coord_add offset (coord (1 + 2 * x) (1 + 2 * (int board_width - 1 - y))))
       (case serialize_piece D (engine_get_piece D e (coord x y)) of
          Some c \<Rightarrow> wchar_of_char c | None \<Rightarrow> 32)
       (Some (if (x + y) mod 2 = 1 then color_black D else color_white D))
       (Some (if (x + y) mod 2 = 1 then color_white D else color_black D))"
  by (simp add: tile_render_def Let_def taxicab_length_def c_rem_nonneg wchar_of_char_def
      mult.commute right_diff_distrib split: option.splits)

lemma set_draw_pieces:
  "set (draw_pieces D e offset) =
     (\<Union>x\<in>{0..<board_width}. \<Union>y\<in>{0..<board_width}.
        {Engine_get_piece (coord (int x) (int y)), tile_render D e offset (int x) (int y)})"
  by (simp add: draw_pieces_def)

lemma tile_render_in_draw_pieces:
  assumes "x < board_width" and "y < board_width"
  shows "tile_render D e offset (int x) (int y) \<in> set (draw_pieces D e offset)"
proof -
  have "x \<in> {0..<board_width}" and "y \<in> {0..<board_width}"
    using assms by simp_all
  then show ?thesis
    unfolding set_draw_pieces by blast
qed

lemma draw_pieces_render:
  assumes "c \<in> set (draw_pieces D e offset)" and "is_render c"
  obtains x y where "x < board_width" and "y < board_width"
    and "c = tile_render D e offset (int x) (int y)"
proof -
  from assms(1) obtain x y where xy: "x \<in> {0..<board_width}" "y \<in> {0..<board_width}"
    and c: "c = Engine_get_piece (coord (int x) (int y)) \<or> c = tile_render D e offset (int x) (int y)"
    unfolding set_draw_pieces by blast
  from c assms(2) have "c = tile_render D e offset (int x) (int y)"
    by auto
  with xy that show thesis
    by simp
qed

lemma frame_parity:
  "c \<in> set (redraw_board_frame offset) \<Longrightarrow>
   is_render c \<and> render_fg c = None \<and> render_bg c = None \<and>
   (even (coord_x (render_pos c) - coord_x offset) \<or> even (coord_y (render_pos c) - coord_y offset))
   \<and> 0 \<le> coord_x (render_pos c) - coord_x offset \<and> coord_x (render_pos c) - coord_x offset \<le> 16
   \<and> 0 \<le> coord_y (render_pos c) - coord_y offset \<and> coord_y (render_pos c) - coord_y offset \<le> 16"
  by (auto simp: redraw_board_frame_def frame_lines_def frame_intersections_def
      frame_corners_def frame_edges_def Let_def coord_add_def board_width_def)

lemma local_positions_small:
  assumes "c \<in> set (redraw_board D e (coord 0 0))" and "is_render c"
  shows "0 \<le> coord_x (render_pos c) \<and> coord_x (render_pos c) \<le> 16
       \<and> 0 \<le> coord_y (render_pos c) \<and> coord_y (render_pos c) \<le> 16"
proof (cases "c \<in> set (redraw_board_frame (coord 0 0))")
  case True
  from frame_parity [OF this] show ?thesis
    by simp
next
  case False
  with assms(1) have "c \<in> set (draw_pieces D e (coord 0 0))"
    by (simp add: redraw_board_def)
  then obtain x y where "x < board_width" "y < board_width"
    and "c = tile_render D e (coord 0 0) (int x) (int y)"
    using assms(2) by (rule draw_pieces_render)
  then show ?thesis
    by (simp add: tile_render_eq coord_add_def board_width_def)
qed

lemma draw_pieces_count:
  "length (filter is_render (draw_pieces D e offset)) = 64"
  by (simp add: draw_pieces_def board_width_def upt_numerals tile_render_def Let_def)

lemma vertical_positions:
  "map render_pos (filter (\<lambda>c. render_glyph c = 0x2551) (redraw_board_frame offset)) =
     concat (map (\<lambda>i. map (\<lambda>j. coord_add offset (coord (2 * int i) (1 + 2 * int j)))
       [0..<board_width]) [0..<board_width + 1])"
  by (simp add: frame_defs upt_numerals)

lemma horizontal_positions:
  "map render_pos (filter (\<lambda>c. render_glyph c = 0x2550) (redraw_board_frame offset)) =
     concat (map (\<lambda>i. map (\<lambda>j. coord_add offset (coord (1 + 2 * int j) (2 * int i)))
       [0..<board_width]) [0..<board_width + 1])"
  by (simp add: frame_defs upt_numerals)

lemma intersection_positions:
  "map render_pos (filter (\<lambda>c. render_glyph c = 0x256c) (redraw_board_frame offset)) =
     concat (map (\<lambda>i. map (\<lambda>j. coord_add offset (coord (2 + 2 * int i) (2 + 2 * int j)))
       [0..<board_width - 1]) [0..<board_width - 1])"
  by (simp add: frame_defs upt_numerals)

lemma corner_calls:
  "filter (\<lambda>c. render_glyph c \<in> {0x2554, 0x2557, 0x255a, 0x255d}) (redraw_board_frame offset) =
     [Render (coord_add offset (coord 0 0)) 0x2554 None None,
      Render (coord_add offset (coord (2 * int board_width) 0)) 0x2557 None None,
      Render (coord_add offset (coord 0 (2 * int board_width))) 0x255a None None,
      Render (coord_add offset (coord (2 * int board_width) (2 * int board_width))) 0x255d None None]"
  by (simp add: frame_defs upt_numerals)

lemma edge_positions:
  "map render_pos (filter (\<lambda>c. render_glyph c = 0x2566) (redraw_board_frame offset)) =
     map (\<lambda>i. coord_add offset (coord (2 + 2 * int i) 0)) [0..<board_width - 1]"
  "map render_pos (filter (\<lambda>c. render_glyph c = 0x2569) (redraw_board_frame offset)) =
     map (\<lambda>i. coord_add offset (coord (2 + 2 * int i) (2 * int board_width))) [0..<board_width - 1]"
  "map render_pos (filter (\<lambda>c. render_glyph c = 0x2560) (redraw_board_frame offset)) =
     map (\<lambda>i. coord_add offset (coord 0 (2 + 2 * int i))) [0..<board_width - 1]"
  "map render_pos (filter (\<lambda>c. render_glyph c = 0x2563) (redraw_board_frame offset)) =
     map (\<lambda>i. coord_add offset (coord (2 * int board_width) (2 + 2 * int i))) [0..<board_width - 1]"
  by (simp_all add: frame_defs upt_numerals)

lemma frame_length: "length (redraw_board_frame offset) = 225"
  by (simp add: frame_defs upt_numerals)

lemma frame_no_colours: "filter (\<lambda>c. is_render c \<and> render_fg c \<noteq> None) (redraw_board_frame offset) = []"
  using frame_parity [of _ offset] by (auto simp: filter_empty_conv)

lemma pieces_coloured: "filter (\<lambda>c. is_render c \<and> render_fg c \<noteq> None) (draw_pieces D e offset)
   = filter is_render (draw_pieces D e offset)"
  by (rule filter_cong) (auto elim!: draw_pieces_render simp: tile_render_def Let_def)

subsection \<open>Claims about the board rendering\<close>

text \<open>
  C4. For every board coordinate \<open>(x, y)\<close> with \<open>x, y < 8\<close> and every offset, \<open>redraw_board\<close>
  emits the render call of that tile, carrying the glyph of the piece the engine reports
  there, at the screen position \<open>offset + (1 + 2x, 1 + 2 (width - 1 - y))\<close>. Rank \<open>y = 0\<close>
  is therefore drawn at a strictly larger screen \<open>y\<close> than rank \<open>y = width - 1\<close>.
\<close>

theorem redraw_board_tile_position:
  "x < board_width \<Longrightarrow> y < board_width \<Longrightarrow>
     tile_render D e offset (int x) (int y) \<in> set (redraw_board D e offset)
   \<and> render_pos (tile_render D e offset (int x) (int y)) =
       coord_add offset (coord (1 + 2 * int x) (1 + 2 * (int board_width - 1 - int y)))
   \<and> render_glyph (tile_render D e offset (int x) (int y)) =
       (case serialize_piece D (engine_get_piece D e (coord (int x) (int y))) of
          Some c \<Rightarrow> wchar_of_char c | None \<Rightarrow> 32)
   \<and> coord_y (render_pos (tile_render D e offset (int x) 0)) >
       coord_y (render_pos (tile_render D e offset (int x) (int board_width - 1)))"
proof (intro conjI)
  assume "x < board_width" and "y < board_width"
  then show "tile_render D e offset (int x) (int y) \<in> set (redraw_board D e offset)"
    by (simp add: redraw_board_def tile_render_in_draw_pieces)
next
  show "render_pos (tile_render D e offset (int x) (int y)) =
    coord_add offset (coord (1 + 2 * int x) (1 + 2 * (int board_width - 1 - int y)))"
    by (simp add: tile_render_eq)
next
  show "render_glyph (tile_render D e offset (int x) (int y)) =
    (case serialize_piece D (engine_get_piece D e (coord (int x) (int y))) of
       Some c \<Rightarrow> wchar_of_char c | None \<Rightarrow> 32)"
    by (simp add: tile_render_eq)
next
  show "coord_y (render_pos (tile_render D e offset (int x) 0)) >
    coord_y (render_pos (tile_render D e offset (int x) (int board_width - 1)))"
    by (simp add: tile_render_eq coord_add_def board_width_def)
qed

theorem redraw_board_tile_position_witness:
  "(2::nat) < board_width \<and> (0::nat) < board_width
   \<and> tile_render example_collaborators 0 (coord 5 3) 2 0
        \<in> set (redraw_board example_collaborators 0 (coord 5 3))
   \<and> render_pos (tile_render example_collaborators 0 (coord 5 3) 2 0) = coord 10 18
   \<and> render_glyph (tile_render example_collaborators 0 (coord 5 3) 2 0) = 32
   \<and> coord_y (render_pos (tile_render example_collaborators 0 (coord 5 3) 2 7))
       < coord_y (render_pos (tile_render example_collaborators 0 (coord 5 3) 2 0))"
proof -
  have small: "(2::nat) < board_width" "(0::nat) < board_width"
    by (simp_all add: board_width_def)
  note tile = redraw_board_tile_position [OF small, of example_collaborators 0 "coord 5 3"]
  from tile have "tile_render example_collaborators 0 (coord 5 3) 2 0
      \<in> set (redraw_board example_collaborators 0 (coord 5 3))"
    by simp
  moreover from tile
  have "render_pos (tile_render example_collaborators 0 (coord 5 3) 2 0) = coord 10 18"
    by (simp add: coord_add_def board_width_def)
  moreover from tile
  have "render_glyph (tile_render example_collaborators 0 (coord 5 3) 2 0) = 32"
    by (simp add: example_collaborators_def)
  moreover from tile [THEN conjunct2, THEN conjunct2, THEN conjunct2]
  have "coord_y (render_pos (tile_render example_collaborators 0 (coord 5 3) 2 7))
      < coord_y (render_pos (tile_render example_collaborators 0 (coord 5 3) 2 0))"
    by (simp add: board_width_def)
  ultimately show ?thesis
    using small by simp
qed

text \<open>
  C5. For every board coordinate with \<open>x, y < 8\<close> the colours of its render call depend on
  \<open>(x + y) mod 2\<close> only: a white tile (odd sum) has a black foreground on a white
  background, a black tile the inverse. The tiles \<open>(0, 0)\<close> and \<open>(7, 7)\<close> get the same
  colours, the tile \<open>(0, 1)\<close> gets them swapped.
\<close>

theorem tile_colors_checkerboard:
  "x < board_width \<Longrightarrow> y < board_width \<Longrightarrow>
     tile_render D e offset (int x) (int y) \<in> set (redraw_board D e offset)
   \<and> render_fg (tile_render D e offset (int x) (int y)) =
       Some (if (x + y) mod 2 = 1 then color_black D else color_white D)
   \<and> render_bg (tile_render D e offset (int x) (int y)) =
       Some (if (x + y) mod 2 = 1 then color_white D else color_black D)
   \<and> render_fg (tile_render D e offset 7 7) = render_fg (tile_render D e offset 0 0)
   \<and> render_bg (tile_render D e offset 7 7) = render_bg (tile_render D e offset 0 0)
   \<and> render_fg (tile_render D e offset 0 1) = render_bg (tile_render D e offset 0 0)
   \<and> render_bg (tile_render D e offset 0 1) = render_fg (tile_render D e offset 0 0)"
proof -
  assume "x < board_width" and "y < board_width"
  then have "tile_render D e offset (int x) (int y) \<in> set (redraw_board D e offset)"
    by (simp add: redraw_board_def tile_render_in_draw_pieces)
  moreover have "(int x + int y) mod 2 = 1 \<longleftrightarrow> (x + y) mod 2 = 1"
    by presburger
  ultimately show ?thesis
    by (simp add: tile_render_eq)
qed

theorem tile_colors_checkerboard_witness:
  "(3::nat) < board_width \<and> (4::nat) < board_width
   \<and> render_fg (tile_render example_collaborators 0 (coord 0 0) 3 4) = Some 0
   \<and> render_bg (tile_render example_collaborators 0 (coord 0 0) 3 4) = Some 0xFFFFFF
   \<and> render_fg (tile_render example_collaborators 0 (coord 0 0) 7 7) =
       render_fg (tile_render example_collaborators 0 (coord 0 0) 0 0)
   \<and> render_fg (tile_render example_collaborators 0 (coord 0 0) 0 1) =
       render_bg (tile_render example_collaborators 0 (coord 0 0) 0 0)"
proof -
  have small: "(3::nat) < board_width" "(4::nat) < board_width"
    by (simp_all add: board_width_def)
  note tile = tile_colors_checkerboard [OF small, of example_collaborators 0 "coord 0 0"]
  from tile have "render_fg (tile_render example_collaborators 0 (coord 0 0) 3 4) = Some 0"
    and "render_bg (tile_render example_collaborators 0 (coord 0 0) 3 4) = Some 0xFFFFFF"
    by (simp_all add: example_collaborators_def)
  with tile small show ?thesis
    by simp
qed

text \<open>
  C6. For every offset, one call of \<open>redraw_board\<close> makes exactly \<open>width * width = 64\<close>
  render calls for piece tiles (the calls that pass colours). Its frame pass draws the
  \<open>(width - 1)\<^sup>2 = 49\<close> inner four-way intersections at \<open>offset + (2 + 2i, 2 + 2j)\<close>, the
  four corner glyphs at the corners of the \<open>2 width\<close> square, \<open>width - 1\<close> T-shaped glyphs on
  each of the four edges, and \<open>width + 1\<close> vertical and \<open>width + 1\<close> horizontal separator
  lines of \<open>width\<close> segments each, at \<open>offset + (2i, 1 + 2j)\<close> and \<open>offset + (1 + 2j, 2i)\<close>.
\<close>

theorem redraw_board_counts:
  "length (filter (\<lambda>c. is_render c \<and> render_fg c \<noteq> None) (redraw_board D e offset)) =
     board_width * board_width
   \<and> length (filter is_render (draw_pieces D e offset)) = 64
   \<and> map render_pos (filter (\<lambda>c. render_glyph c = 0x256c) (redraw_board_frame offset)) =
       concat (map (\<lambda>i. map (\<lambda>j. coord_add offset (coord (2 + 2 * int i) (2 + 2 * int j)))
         [0..<board_width - 1]) [0..<board_width - 1])
   \<and> length (filter (\<lambda>c. render_glyph c = 0x256c) (redraw_board_frame offset)) =
       (board_width - 1) * (board_width - 1)
   \<and> filter (\<lambda>c. render_glyph c \<in> {0x2554, 0x2557, 0x255a, 0x255d})
         (redraw_board_frame offset) =
       [Render (coord_add offset (coord 0 0)) 0x2554 None None,
        Render (coord_add offset (coord (2 * int board_width) 0)) 0x2557 None None,
        Render (coord_add offset (coord 0 (2 * int board_width))) 0x255a None None,
        Render (coord_add offset (coord (2 * int board_width) (2 * int board_width)))
          0x255d None None]
   \<and> map render_pos (filter (\<lambda>c. render_glyph c = 0x2566) (redraw_board_frame offset)) =
       map (\<lambda>i. coord_add offset (coord (2 + 2 * int i) 0)) [0..<board_width - 1]
   \<and> map render_pos (filter (\<lambda>c. render_glyph c = 0x2569) (redraw_board_frame offset)) =
       map (\<lambda>i. coord_add offset (coord (2 + 2 * int i) (2 * int board_width)))
         [0..<board_width - 1]
   \<and> map render_pos (filter (\<lambda>c. render_glyph c = 0x2560) (redraw_board_frame offset)) =
       map (\<lambda>i. coord_add offset (coord 0 (2 + 2 * int i))) [0..<board_width - 1]
   \<and> map render_pos (filter (\<lambda>c. render_glyph c = 0x2563) (redraw_board_frame offset)) =
       map (\<lambda>i. coord_add offset (coord (2 * int board_width) (2 + 2 * int i)))
         [0..<board_width - 1]
   \<and> length (filter (\<lambda>c. render_glyph c \<in> {0x2566, 0x2569, 0x2560, 0x2563})
         (redraw_board_frame offset)) = 4 * (board_width - 1)
   \<and> map render_pos (filter (\<lambda>c. render_glyph c = 0x2551) (redraw_board_frame offset)) =
       concat (map (\<lambda>i. map (\<lambda>j. coord_add offset (coord (2 * int i) (1 + 2 * int j)))
         [0..<board_width]) [0..<board_width + 1])
   \<and> map render_pos (filter (\<lambda>c. render_glyph c = 0x2550) (redraw_board_frame offset)) =
       concat (map (\<lambda>i. map (\<lambda>j. coord_add offset (coord (1 + 2 * int j) (2 * int i)))
         [0..<board_width]) [0..<board_width + 1])
   \<and> length (filter (\<lambda>c. render_glyph c = 0x2551) (redraw_board_frame offset)) =
       (board_width + 1) * board_width
   \<and> length (filter (\<lambda>c. render_glyph c = 0x2550) (redraw_board_frame offset)) =
       (board_width + 1) * board_width
   \<and> length (redraw_board_frame offset) = 225"
proof -
  have "length (filter (\<lambda>c. is_render c \<and> render_fg c \<noteq> None) (redraw_board D e offset)) =
      board_width * board_width"
    unfolding redraw_board_def filter_append frame_no_colours pieces_coloured
    by (simp add: draw_pieces_count board_width_def)
  moreover have "length (filter (\<lambda>c. render_glyph c = 0x256c) (redraw_board_frame offset)) =
      (board_width - 1) * (board_width - 1)"
    by (simp add: frame_defs upt_numerals)
  moreover have "length (filter (\<lambda>c. render_glyph c \<in> {0x2566, 0x2569, 0x2560, 0x2563})
      (redraw_board_frame offset)) = 4 * (board_width - 1)"
    by (simp add: frame_defs upt_numerals)
  moreover have "length (filter (\<lambda>c. render_glyph c = 0x2551) (redraw_board_frame offset)) =
      (board_width + 1) * board_width"
    by (simp add: frame_defs upt_numerals)
  moreover have "length (filter (\<lambda>c. render_glyph c = 0x2550) (redraw_board_frame offset)) =
      (board_width + 1) * board_width"
    by (simp add: frame_defs upt_numerals)
  ultimately show ?thesis
    using draw_pieces_count [of D e offset] intersection_positions [of offset]
      corner_calls [of offset] edge_positions [of offset] vertical_positions [of offset]
      horizontal_positions [of offset] frame_length [of offset]
    by (intro conjI) assumption+
qed

text \<open>
  C9. For every board coordinate whose piece serializes to no character, \<open>redraw_board\<close>
  renders the blank glyph for that square. The piece step has no failing branch: whatever
  the engine and the serializer return, all \<open>width * width\<close> tiles are rendered.
\<close>

theorem redraw_board_blank_fallback:
  "x < board_width \<Longrightarrow> y < board_width \<Longrightarrow>
   serialize_piece D (engine_get_piece D e (coord (int x) (int y))) = None \<Longrightarrow>
     tile_render D e offset (int x) (int y) \<in> set (redraw_board D e offset)
   \<and> is_render (tile_render D e offset (int x) (int y))
   \<and> render_glyph (tile_render D e offset (int x) (int y)) = wchar_of_char CHR '' ''
   \<and> render_glyph (tile_render D e offset (int x) (int y)) = 32
   \<and> length (filter is_render (draw_pieces D e offset)) = board_width * board_width"
proof (intro conjI)
  assume "x < board_width" and "y < board_width"
  then show "tile_render D e offset (int x) (int y) \<in> set (redraw_board D e offset)"
    by (simp add: redraw_board_def tile_render_in_draw_pieces)
next
  show "is_render (tile_render D e offset (int x) (int y))"
    by (simp add: tile_render_def Let_def)
next
  assume "serialize_piece D (engine_get_piece D e (coord (int x) (int y))) = None"
  then show "render_glyph (tile_render D e offset (int x) (int y)) = wchar_of_char CHR '' ''"
    and "render_glyph (tile_render D e offset (int x) (int y)) = 32"
    by (simp_all add: tile_render_def Let_def wchar_of_char_def)
next
  show "length (filter is_render (draw_pieces D e offset)) = board_width * board_width"
    by (simp add: draw_pieces_count board_width_def)
qed

theorem redraw_board_blank_fallback_witness:
  "(4::nat) < board_width \<and> (3::nat) < board_width
   \<and> serialize_piece example_collaborators
        (engine_get_piece example_collaborators 0 (coord 4 3)) = None
   \<and> tile_render example_collaborators 0 (coord 0 0) 4 3
        \<in> set (redraw_board example_collaborators 0 (coord 0 0))
   \<and> render_glyph (tile_render example_collaborators 0 (coord 0 0) 4 3) = 32"
proof -
  have small: "(4::nat) < board_width" "(3::nat) < board_width"
    by (simp_all add: board_width_def)
  have blank: "serialize_piece example_collaborators
      (engine_get_piece example_collaborators 0 (coord (int 4) (int 3))) = None"
    by (simp add: example_collaborators_def)
  note tile = redraw_board_blank_fallback [OF small blank, of "coord 0 0"]
  from tile blank small show ?thesis
    by simp
qed

text \<open>
  C10. For every offset the map from board squares to screen positions,
  \<open>(x, y) \<mapsto> offset + (1 + 2x, 1 + 2 (width - 1 - y))\<close>, is injective on \<open>x, y < 8\<close>. Every
  render call of the piece pass has both coordinates odd relative to the offset, every call
  of the frame pass has an even one, so the two passes never write the same cell.
\<close>

theorem tile_positions_disjoint_from_frame:
  assumes "x < board_width" and "y < board_width"
    and "x' < board_width" and "y' < board_width"
    and "c \<in> set (draw_pieces D e offset)" and "is_render c"
    and "f \<in> set (redraw_board_frame offset)"
  shows "render_pos (tile_render D e offset (int x) (int y)) =
           coord_add offset (coord (1 + 2 * int x) (1 + 2 * (int board_width - 1 - int y)))
       \<and> (render_pos (tile_render D e offset (int x) (int y)) =
            render_pos (tile_render D e offset (int x') (int y')) \<longleftrightarrow> x = x' \<and> y = y')
       \<and> odd (coord_x (render_pos c) - coord_x offset)
       \<and> odd (coord_y (render_pos c) - coord_y offset)
       \<and> (even (coord_x (render_pos f) - coord_x offset)
            \<or> even (coord_y (render_pos f) - coord_y offset))
       \<and> render_pos c \<noteq> render_pos f"
proof -
  have inj: "render_pos (tile_render D e offset (int x) (int y)) =
      render_pos (tile_render D e offset (int x') (int y')) \<longleftrightarrow> x = x' \<and> y = y'"
    by (auto simp: tile_render_eq coord_add_def)
  from assms(5,6) obtain u v where "u < board_width" "v < board_width"
    and c: "c = tile_render D e offset (int u) (int v)"
    by (rule draw_pieces_render)
  have odd_x: "odd (coord_x (render_pos c) - coord_x offset)"
    and odd_y: "odd (coord_y (render_pos c) - coord_y offset)"
    unfolding c by (simp_all add: tile_render_eq coord_add_def board_width_def)
  from frame_parity [OF assms(7)]
  have even_f: "even (coord_x (render_pos f) - coord_x offset)
      \<or> even (coord_y (render_pos f) - coord_y offset)"
    by simp
  from odd_x odd_y even_f have "render_pos c \<noteq> render_pos f"
    by auto
  moreover have "render_pos (tile_render D e offset (int x) (int y)) =
      coord_add offset (coord (1 + 2 * int x) (1 + 2 * (int board_width - 1 - int y)))"
    by (simp add: tile_render_eq)
  ultimately show ?thesis
    using inj odd_x odd_y even_f by simp
qed

theorem tile_positions_disjoint_from_frame_witness:
  "(0::nat) < board_width \<and> (1::nat) < board_width
   \<and> tile_render example_collaborators 0 (coord 0 0) 0 1
        \<in> set (draw_pieces example_collaborators 0 (coord 0 0))
   \<and> is_render (tile_render example_collaborators 0 (coord 0 0) 0 1)
   \<and> Render (coord 16 0) 0x2557 None None
        \<in> set (redraw_board_frame (coord 0 0) :: nat call list)
   \<and> render_pos (tile_render example_collaborators 0 (coord 0 0) 0 1) = coord 1 13
   \<and> render_pos (tile_render example_collaborators 0 (coord 0 0) 0 1) \<noteq>
       render_pos (tile_render example_collaborators 0 (coord 0 0) 1 0)
   \<and> render_pos (tile_render example_collaborators 0 (coord 0 0) 0 1) \<noteq> coord 16 0"
proof -
  have small: "(0::nat) < board_width" "(1::nat) < board_width"
    by (simp_all add: board_width_def)
  have tile: "tile_render example_collaborators 0 (coord 0 0) (int 0) (int 1)
      \<in> set (draw_pieces example_collaborators 0 (coord 0 0))"
    using small by (rule tile_render_in_draw_pieces)
  have render: "is_render (tile_render example_collaborators 0 (coord 0 0) (int 0) (int 1))"
    by (simp add: tile_render_def Let_def)
  have corner: "Render (coord 16 0) 0x2557 None None
      \<in> set (redraw_board_frame (coord 0 0) :: nat call list)"
    by (simp add: redraw_board_frame_def frame_corners_def board_width_def coord_add_def)
  note apart =
    tile_positions_disjoint_from_frame [OF small(1) small(2) small(2) small(1) tile render corner]
  note rest = apart [THEN conjunct2]
  from apart [THEN conjunct1]
  have "render_pos (tile_render example_collaborators 0 (coord 0 0) 0 1) = coord 1 13"
    by (simp add: coord_add_def board_width_def)
  moreover from rest [THEN conjunct1]
  have "render_pos (tile_render example_collaborators 0 (coord 0 0) 0 1) \<noteq>
      render_pos (tile_render example_collaborators 0 (coord 0 0) 1 0)"
    by simp
  moreover from rest [THEN conjunct2, THEN conjunct2, THEN conjunct2, THEN conjunct2]
  have "render_pos (tile_render example_collaborators 0 (coord 0 0) 0 1) \<noteq> coord 16 0"
    by simp
  ultimately show ?thesis
    using small tile render corner by simp
qed

subsection \<open>Auxiliary facts about creation\<close>

lemma create_None:
  "create D None =
     (Some \<lparr>m_engine = board_create_default D, m_key_callback = key_callback_handle D,
            m_should_quit = False\<rparr>,
      [Engine_set_board (board_create_default D), Add_key_callback, Store_should_quit False,
       Game_console_create, Add_alias ''quit'', Set_callback]
        @ redraw_board D (board_create_default D) (coord 0 0) @ [Set_accept_input True])"
  by (simp add: create_def client_ctor_def register_commands_def redraw_def Let_def)

lemma create_Some_valid:
  "board_create D position = Some board \<Longrightarrow>
   create D (Some position) =
     (Some \<lparr>m_engine = board, m_key_callback = key_callback_handle D, m_should_quit = False\<rparr>,
      [Engine_set_board (board_create_default D), Add_key_callback, Store_should_quit False,
       Game_console_create, Mutex_lock, Engine_set_board board, Mutex_unlock,
       Add_alias ''quit'', Set_callback]
        @ redraw_board D board (coord 0 0) @ [Set_accept_input True])"
  by (simp add: create_def client_ctor_def load_fen_def register_commands_def redraw_def Let_def)

lemma create_Some_invalid:
  "board_create D position = None \<Longrightarrow>
   create D (Some position) =
     (None,
      [Engine_set_board (board_create_default D), Add_key_callback, Store_should_quit False,
       Game_console_create, Mutex_lock, Mutex_unlock,
       Remove_key_callback (key_callback_handle D)])"
  by (simp add: create_def client_ctor_def load_fen_def client_dtor_def Let_def)

lemma redraw_board_calls:
  "c \<in> set (redraw_board D e offset) \<Longrightarrow> is_render c \<or> (\<exists>p. c = Engine_get_piece p)"
  using frame_parity [of c offset]
  by (auto simp: redraw_board_def set_draw_pieces tile_render_def Let_def)

lemma redraw_board_no_accept: "filter sets_accept_input (redraw_board D e offset) = []"
  by (auto simp: filter_empty_conv dest!: redraw_board_calls elim: is_render.elims)

lemma accept_input_after_append:
  "accept_input_after flag (xs @ ys) = accept_input_after (accept_input_after flag xs) ys"
  by (induction flag xs rule: accept_input_after.induct) simp_all

lemma accept_input_after_unchanged:
  "filter sets_accept_input cs = [] \<Longrightarrow> accept_input_after flag cs = flag"
  by (induction flag cs rule: accept_input_after.induct) simp_all

lemma filter_take_empty: "filter P xs = [] \<Longrightarrow> filter P (take k xs) = []"
  by (auto simp: filter_empty_conv dest: in_set_takeD)

subsection \<open>Claims about creation\<close>

text \<open>
  C7. On every successful creation the steps come in this order: the engine state is set
  (to the default board by the constructor, then to the parsed position if one is given),
  the command set is registered, the board is redrawn in full, and only then the console's
  accept-input flag is switched on. No call before the last one touches that flag, so a
  console that starts out not accepting input accepts none before the commands exist and
  the board is drawn.
\<close>

theorem create_success_order:
  assumes "create D fen = (Some c, calls)" and "k < length calls"
  shows "(case fen of
            None \<Rightarrow> m_engine c = board_create_default D
          | Some position \<Rightarrow> board_create D position = Some (m_engine c))
       \<and> calls =
           [Engine_set_board (board_create_default D), Add_key_callback,
            Store_should_quit False, Game_console_create]
           @ (case fen of
                None \<Rightarrow> []
              | Some position \<Rightarrow> [Mutex_lock, Engine_set_board (m_engine c), Mutex_unlock])
           @ [Add_alias ''quit'', Set_callback]
           @ redraw_board D (m_engine c) (coord 0 0)
           @ [Set_accept_input True]
       \<and> calls =
           snd (client_ctor D)
           @ (case fen of
                None \<Rightarrow> []
              | Some position \<Rightarrow> snd (snd (load_fen D position (fst (client_ctor D)))))
           @ register_commands @ redraw D (m_engine c) @ [Set_accept_input True]
       \<and> filter sets_accept_input (butlast calls) = []
       \<and> accept_input_after False (take k calls) = False
       \<and> accept_input_after flag calls = True"
proof -
  let ?prelude = "[Engine_set_board (board_create_default D), Add_key_callback,
      Store_should_quit False, Game_console_create]
    @ (case fen of
         None \<Rightarrow> []
       | Some position \<Rightarrow> [Mutex_lock, Engine_set_board (m_engine c), Mutex_unlock])
    @ [Add_alias ''quit'', Set_callback]"
  have engine: "case fen of
      None \<Rightarrow> m_engine c = board_create_default D
    | Some position \<Rightarrow> board_create D position = Some (m_engine c)"
    and calls: "calls = ?prelude @ redraw_board D (m_engine c) (coord 0 0) @ [Set_accept_input True]"
  proof (atomize (full), cases fen)
    case None
    with assms(1) show "(case fen of
        None \<Rightarrow> m_engine c = board_create_default D
      | Some position \<Rightarrow> board_create D position = Some (m_engine c))
      \<and> calls = ?prelude @ redraw_board D (m_engine c) (coord 0 0) @ [Set_accept_input True]"
      by (auto simp: create_None)
  next
    case (Some position)
    show "(case fen of
        None \<Rightarrow> m_engine c = board_create_default D
      | Some position \<Rightarrow> board_create D position = Some (m_engine c))
      \<and> calls = ?prelude @ redraw_board D (m_engine c) (coord 0 0) @ [Set_accept_input True]"
    proof (cases "board_create D position")
      case None
      with assms(1) Some show ?thesis
        by (simp add: create_Some_invalid)
    next
      case (Some board)
      with assms(1) \<open>fen = Some position\<close> show ?thesis
        by (auto simp: create_Some_valid)
    qed
  qed
  have staged: "calls = snd (client_ctor D)
      @ (case fen of
           None \<Rightarrow> []
         | Some position \<Rightarrow> snd (snd (load_fen D position (fst (client_ctor D)))))
      @ register_commands @ redraw D (m_engine c) @ [Set_accept_input True]"
  proof (cases fen)
    case None
    with calls show ?thesis
      by (simp add: client_ctor_def register_commands_def redraw_def Let_def)
  next
    case (Some position)
    with engine have "board_create D position = Some (m_engine c)"
      by simp
    with calls Some show ?thesis
      by (simp add: client_ctor_def load_fen_def register_commands_def redraw_def Let_def)
  qed
  have quiet: "filter sets_accept_input (?prelude @ redraw_board D (m_engine c) (coord 0 0)) = []"
    by (simp add: redraw_board_no_accept split: option.splits)
  have butlast: "butlast calls = ?prelude @ redraw_board D (m_engine c) (coord 0 0)"
    by (subst calls) (simp add: butlast_append)
  have "take k calls = take k (butlast calls)"
    using assms(2) by (simp add: take_butlast)
  then have before: "accept_input_after False (take k calls) = False"
    using quiet butlast by (simp add: accept_input_after_unchanged filter_take_empty)
  have "calls = butlast calls @ [Set_accept_input True]"
    using butlast calls by simp
  then have "accept_input_after flag calls = accept_input_after flag (butlast calls @ [Set_accept_input True])"
    by simp
  also have "\<dots> = True"
    by (simp add: accept_input_after_append)
  finally have after: "accept_input_after flag calls = True" .
  from engine calls staged quiet butlast before after show ?thesis
    by simp
qed

theorem create_success_order_witness:
  "create example_collaborators (Some ''8/8/8/8/8/8/8/8 w - - 0 1'') =
     (Some \<lparr>m_engine = 1, m_key_callback = 3, m_should_quit = False\<rparr>,
      snd (create example_collaborators (Some ''8/8/8/8/8/8/8/8 w - - 0 1'')))
   \<and> 9 < length (snd (create example_collaborators (Some ''8/8/8/8/8/8/8/8 w - - 0 1'')))
   \<and> take 9 (snd (create example_collaborators (Some ''8/8/8/8/8/8/8/8 w - - 0 1''))) =
       [Engine_set_board 0, Add_key_callback, Store_should_quit False, Game_console_create,
        Mutex_lock, Engine_set_board 1, Mutex_unlock, Add_alias ''quit'', Set_callback]
   \<and> accept_input_after False
        (take 9 (snd (create example_collaborators (Some ''8/8/8/8/8/8/8/8 w - - 0 1'')))) = False
   \<and> accept_input_after False
        (snd (create example_collaborators (Some ''8/8/8/8/8/8/8/8 w - - 0 1''))) = True"
proof -
  let ?fen = "''8/8/8/8/8/8/8/8 w - - 0 1''"
  let ?c = "\<lparr>m_engine = 1, m_key_callback = 3, m_should_quit = False\<rparr> :: nat client"
  have valid: "board_create example_collaborators ?fen = Some 1"
    and default: "board_create_default example_collaborators = 0"
    and handle: "key_callback_handle example_collaborators = 3"
    by (simp_all add: example_collaborators_def)
  have created: "create example_collaborators (Some ?fen) =
      (Some ?c, snd (create example_collaborators (Some ?fen)))"
    by (simp add: create_Some_valid [OF valid] handle)
  have long: "9 < length (snd (create example_collaborators (Some ?fen)))"
    by (simp add: create_Some_valid [OF valid])
  note order = create_success_order [OF created long, of False]
  from order [THEN conjunct2, THEN conjunct1]
  have "take 9 (snd (create example_collaborators (Some ?fen))) =
      [Engine_set_board 0, Add_key_callback, Store_should_quit False, Game_console_create,
       Mutex_lock, Engine_set_board 1, Mutex_unlock, Add_alias ''quit'', Set_callback]"
    by (simp add: default)
  moreover from order
  have "accept_input_after False (take 9 (snd (create example_collaborators (Some ?fen)))) = False"
    and "accept_input_after False (snd (create example_collaborators (Some ?fen))) = True"
    by blast+
  ultimately show ?thesis
    using created long by blast
qed

text \<open>
  C1, as the code has it. For every invalid initial position string \<open>create\<close> returns no
  instance. On that path the constructor has registered the key callback and created the
  console before the position is looked at; the destructor then removes the key callback
  with the handle the renderer handed out. The console is never told to accept input, no
  command is registered and no render call is made.
\<close>

theorem create_invalid_position:
  assumes "board_create D position = None"
  shows "create D (Some position) =
           (None,
            [Engine_set_board (board_create_default D), Add_key_callback,
             Store_should_quit False, Game_console_create, Mutex_lock, Mutex_unlock,
             Remove_key_callback (key_callback_handle D)])
       \<and> snd (create D (Some position)) =
           snd (client_ctor D) @ snd (snd (load_fen D position (fst (client_ctor D))))
             @ client_dtor (fst (client_ctor D))
       \<and> filter is_render (snd (create D (Some position))) = []
       \<and> filter sets_accept_input (snd (create D (Some position))) = []
       \<and> Set_callback \<notin> set (snd (create D (Some position)))
       \<and> Add_alias ''quit'' \<notin> set (snd (create D (Some position)))
       \<and> length (filter (\<lambda>c. c = Game_console_create) (snd (create D (Some position)))) = 1"
  using assms
  by (simp add: create_Some_invalid client_ctor_def load_fen_def client_dtor_def Let_def)

theorem create_invalid_position_witness:
  "board_create example_collaborators ''e4'' = None
   \<and> create example_collaborators (Some ''e4'') =
       (None, [Engine_set_board 0, Add_key_callback, Store_should_quit False,
               Game_console_create, Mutex_lock, Mutex_unlock, Remove_key_callback 3])
   \<and> filter is_render (snd (create example_collaborators (Some ''e4''))) = []"
proof -
  have invalid: "board_create example_collaborators ''e4'' = None"
    by (simp add: example_collaborators_def)
  note failed = create_invalid_position [OF invalid]
  have "board_create_default example_collaborators = 0"
    and "key_callback_handle example_collaborators = 3"
    by (simp_all add: example_collaborators_def)
  with failed invalid show ?thesis
    by simp
qed

text \<open>
  C1 as stated asks that no console is created on the failing path. With a position string
  that the board rejects, \<open>create\<close> returns no instance and \<^verbatim>\<open>game_console::create\<close> has
  been called all the same.
\<close>

theorem create_invalid_position_counterexample:
  "board_create example_collaborators ''e4'' = None
   \<and> fst (create example_collaborators (Some ''e4'')) = None
   \<and> Game_console_create \<in> set (snd (create example_collaborators (Some ''e4'')))"
  by (simp add: create_def client_ctor_def load_fen_def client_dtor_def Let_def
      example_collaborators_def)

subsection \<open>Claims about the client lock\<close>

lemma guarded_append_plain:
  "filter (\<lambda>c. c = Mutex_lock \<or> c = Mutex_unlock) xs = [] \<Longrightarrow>
   guarded held (xs @ ys) = (guarded held xs \<and> guarded held ys)"
  by (induction held xs rule: guarded.induct) (auto split: if_splits)

lemma guarded_held:
  "filter (\<lambda>c. c = Mutex_lock \<or> c = Mutex_unlock) xs = [] \<Longrightarrow> guarded True xs"
  by (induction True xs rule: guarded.induct) (auto split: if_splits)

lemma render_plain:
  "is_render c \<Longrightarrow> \<not> is_access c \<and> c \<noteq> Mutex_lock \<and> c \<noteq> Mutex_unlock"
  by (cases c) simp_all

lemma frame_plain:
  "filter (\<lambda>c. c = Mutex_lock \<or> c = Mutex_unlock) (redraw_board_frame offset) = []"
  "filter is_access (redraw_board_frame offset) = []"
  using frame_parity [of _ offset] by (auto simp: filter_empty_conv dest: render_plain)

lemma redraw_board_plain:
  "filter (\<lambda>c. c = Mutex_lock \<or> c = Mutex_unlock) (redraw_board D e offset) = []"
  by (auto simp: filter_empty_conv dest!: redraw_board_calls elim: is_render.elims)

lemma draw_pieces_unguarded: "\<not> guarded False (draw_pieces D e offset)"
  by (simp add: draw_pieces_def board_width_def upt_numerals)

lemma redraw_unguarded: "\<not> guarded False (redraw D e)"
  unfolding redraw_def redraw_board_def
  by (simp add: guarded_append_plain frame_plain draw_pieces_unguarded)

text \<open>
  C2, as the code has it. \<open>load_fen\<close>, \<open>should_quit\<close> and the key callback acquire the client
  lock as their first call, touch the engine state, the quit flag or the console only then,
  and release the lock as their last call, so that it is free again on return. The constructor, \<open>redraw\<close> and \<open>command_quit\<close> (also through its registered
  wrapper) access client state without acquiring the lock themselves: their accesses are
  covered exactly when the caller already holds it.
\<close>

theorem lock_held_by_entry_points:
  "snd (snd (load_fen D position c)) =
     (case board_create D position of
        None \<Rightarrow> [Mutex_lock, Mutex_unlock]
      | Some board \<Rightarrow> [Mutex_lock, Engine_set_board board, Mutex_unlock])
   \<and> snd (should_quit c) = [Mutex_lock, Load_should_quit, Mutex_unlock]
   \<and> key_callback k = [Mutex_lock, Process_keystroke k, Mutex_unlock]
   \<and> client_key_callback k = [Mutex_lock, Process_keystroke k, Mutex_unlock]
   \<and> mutex_held_after False (snd (snd (load_fen D position c))) = False
   \<and> mutex_held_after False (snd (should_quit c)) = False
   \<and> mutex_held_after False (key_callback k) = False
   \<and> mutex_held_after False (client_key_callback k) = False
   \<and> guarded False (snd (snd (load_fen D position c)))
   \<and> guarded False (snd (should_quit c))
   \<and> guarded False (key_callback k)
   \<and> guarded False (client_key_callback k)
   \<and> Mutex_lock \<notin> set (snd (client_ctor D))
   \<and> \<not> guarded False (snd (client_ctor D))
   \<and> guarded True (snd (client_ctor D))
   \<and> Mutex_lock \<notin> set (redraw D e)
   \<and> \<not> guarded False (redraw D e)
   \<and> guarded True (redraw D e)
   \<and> Mutex_lock \<notin> set (snd (snd (command_quit args c)))
   \<and> \<not> guarded False (snd (snd (command_quit args c)))
   \<and> guarded True (snd (snd (command_quit args c)))
   \<and> Mutex_lock \<notin> set (snd (snd (quit_callback args c)))
   \<and> \<not> guarded False (snd (snd (quit_callback args c)))
   \<and> guarded True (snd (snd (quit_callback args c)))"
proof -
  have bracket: "snd (snd (load_fen D position c)) =
      (case board_create D position of
         None \<Rightarrow> [Mutex_lock, Mutex_unlock]
       | Some board \<Rightarrow> [Mutex_lock, Engine_set_board board, Mutex_unlock])"
    "snd (should_quit c) = [Mutex_lock, Load_should_quit, Mutex_unlock]"
    "key_callback k = [Mutex_lock, Process_keystroke k, Mutex_unlock]"
    "client_key_callback k = [Mutex_lock, Process_keystroke k, Mutex_unlock]"
    by (simp_all add: load_fen_def should_quit_def key_callback_def client_key_callback_def
        split: option.splits)
  have released: "mutex_held_after False (snd (snd (load_fen D position c))) = False"
    "mutex_held_after False (snd (should_quit c)) = False"
    "mutex_held_after False (key_callback k) = False"
    "mutex_held_after False (client_key_callback k) = False"
    unfolding bracket by (simp_all split: option.splits)
  have entry: "guarded False (snd (snd (load_fen D position c)))"
    "guarded False (snd (should_quit c))"
    "guarded False (key_callback k)"
    "guarded False (client_key_callback k)"
    by (simp_all add: load_fen_def should_quit_def key_callback_def client_key_callback_def
        split: option.splits)
  have ctor: "Mutex_lock \<notin> set (snd (client_ctor D))"
    "\<not> guarded False (snd (client_ctor D))"
    "guarded True (snd (client_ctor D))"
    by (simp_all add: client_ctor_def Let_def)
  have "filter (\<lambda>c. c = Mutex_lock \<or> c = Mutex_unlock) (redraw D e) = []"
    by (simp add: redraw_def redraw_board_plain)
  then have draw: "Mutex_lock \<notin> set (redraw D e)" "guarded True (redraw D e)"
    by (auto simp: filter_empty_conv guarded_held)
  have quit: "Mutex_lock \<notin> set (snd (snd (command_quit args c)))"
    "\<not> guarded False (snd (snd (command_quit args c)))"
    "guarded True (snd (snd (command_quit args c)))"
    "Mutex_lock \<notin> set (snd (snd (quit_callback args c)))"
    "\<not> guarded False (snd (snd (quit_callback args c)))"
    "guarded True (snd (snd (quit_callback args c)))"
    by (simp_all add: command_quit_def quit_callback_def BIND_CLIENT_COMMAND_def
        console_lock_ctor_def console_lock_dtor_def)
  from bracket released entry ctor draw redraw_unguarded [of D e] quit show ?thesis
    by (intro conjI) assumption+
qed

text \<open>
  C2 as stated asks that every read and write of client state happens under the client
  lock. A creation without position string writes the engine state and the quit flag in the
  constructor and reads the engine state during the redraw, and acquires the lock nowhere.
\<close>

theorem lock_not_held_in_create_counterexample:
  "\<not> guarded False (snd (create example_collaborators None))"
  by (simp add: create_None)

subsection \<open>Claims about commands\<close>

lemma quit_callback_eq:
  "quit_callback args c =
     (Returned, c\<lparr>m_should_quit := True\<rparr>,
      [Set_accept_input False, Store_should_quit True, Set_accept_input True])"
  by (simp add: quit_callback_def BIND_CLIENT_COMMAND_def command_quit_def
      console_lock_ctor_def console_lock_dtor_def)

text \<open>
  C3. Every callback bound with \<^verbatim>\<open>BIND_CLIENT_COMMAND\<close> switches the console's accept-input
  flag off before the command function runs and switches it on again when the call is
  left, whether the command returns or throws. A command that does not write the flag
  itself therefore runs with the flag off from its first call to its last, and the flag is
  on as soon as the callback is left. The registered callback, \<open>quit\<close>, is such a command.
\<close>

theorem console_lock_scopes_command:
  assumes "func args c = (result, c', inner)"
  shows "BIND_CLIENT_COMMAND func args c =
           (result, c', Set_accept_input False # inner @ [Set_accept_input True])
       \<and> accept_input_after flag [Set_accept_input False] = False
       \<and> (filter sets_accept_input inner = [] \<longrightarrow>
            (\<forall>k\<le>length inner.
               accept_input_after flag (take (Suc k) (Set_accept_input False # inner)) = False))
       \<and> accept_input_after flag (snd (snd (BIND_CLIENT_COMMAND func args c))) = True
       \<and> quit_callback args' d =
           (Returned, d\<lparr>m_should_quit := True\<rparr>,
            [Set_accept_input False, Store_should_quit True, Set_accept_input True])"
proof -
  have wrapped: "BIND_CLIENT_COMMAND func args c =
      (result, c', Set_accept_input False # inner @ [Set_accept_input True])"
    using assms
    by (simp add: BIND_CLIENT_COMMAND_def console_lock_ctor_def console_lock_dtor_def)
  have during: "accept_input_after flag (take (Suc k) (Set_accept_input False # inner)) = False"
    if "filter sets_accept_input inner = []" for k
    using that by (simp add: accept_input_after_unchanged filter_take_empty)
  have "accept_input_after flag (snd (snd (BIND_CLIENT_COMMAND func args c))) = True"
    unfolding wrapped by (simp add: accept_input_after_append)
  with wrapped during show ?thesis
    by (simp add: quit_callback_eq)
qed

theorem console_lock_scopes_command_witness:
  "example_failing_command [''h9''] \<lparr>m_engine = 0, m_key_callback = 3, m_should_quit = False\<rparr> =
     (Thrown ''no such square'', \<lparr>m_engine = 0, m_key_callback = 3, m_should_quit = False\<rparr>,
      [Engine_get_piece (coord 8 8)])
   \<and> BIND_CLIENT_COMMAND example_failing_command [''h9'']
        \<lparr>m_engine = 0, m_key_callback = 3, m_should_quit = False\<rparr> =
       (Thrown ''no such square'', \<lparr>m_engine = 0, m_key_callback = 3, m_should_quit = False\<rparr>,
        [Set_accept_input False, Engine_get_piece (coord 8 8), Set_accept_input True])
   \<and> accept_input_after True [Set_accept_input False, Engine_get_piece (coord 8 8) :: nat call]
       = False
   \<and> accept_input_after True
        (snd (snd (BIND_CLIENT_COMMAND example_failing_command [''h9'']
          \<lparr>m_engine = 0, m_key_callback = 3, m_should_quit = False\<rparr>))) = True"
proof -
  let ?c = "\<lparr>m_engine = 0, m_key_callback = 3, m_should_quit = False\<rparr> :: nat client"
  let ?inner = "[Engine_get_piece (coord 8 8)] :: nat call list"
  have thrown: "example_failing_command [''h9''] ?c = (Thrown ''no such square'', ?c, ?inner)"
    by (simp add: example_failing_command_def)
  note scoped = console_lock_scopes_command
    [where func = example_failing_command and flag = True and args' = "[]" and d = ?c,
      OF thrown]
  from scoped [THEN conjunct1]
  have wrapped: "BIND_CLIENT_COMMAND example_failing_command [''h9''] ?c =
      (Thrown ''no such square'', ?c,
       [Set_accept_input False, Engine_get_piece (coord 8 8), Set_accept_input True])"
    by simp
  from scoped [THEN conjunct2, THEN conjunct2, THEN conjunct1]
  have "accept_input_after True (take (Suc 1) (Set_accept_input False # ?inner)) = False"
    by simp
  then have during: "accept_input_after True
      [Set_accept_input False, Engine_get_piece (coord 8 8) :: nat call] = False"
    by simp
  from scoped [THEN conjunct2, THEN conjunct2, THEN conjunct2, THEN conjunct1]
  have after: "accept_input_after True
      (snd (snd (BIND_CLIENT_COMMAND example_failing_command [''h9''] ?c))) = True" .
  from thrown wrapped during after show ?thesis
    by (intro conjI)
qed

lemma run_command_quit:
  "run_commands command_quit argss c =
     (Returned, (if argss = [] then c else c\<lparr>m_should_quit := True\<rparr>),
      replicate (length argss) (Store_should_quit True))"
  by (induction argss arbitrary: c) (simp_all add: command_quit_def)

lemma run_quit_callback:
  "run_commands quit_callback argss c =
     (Returned, (if argss = [] then c else c\<lparr>m_should_quit := True\<rparr>),
      concat (replicate (length argss)
        [Set_accept_input False, Store_should_quit True, Set_accept_input True]))"
  by (induction argss arbitrary: c) (simp_all add: quit_callback_eq)

text \<open>
  C8. For every non-empty sequence of invocations of the quit command, with any argument
  lists, the quit flag ends up true, no other field of the client changes, no error is
  raised, and the client is left as one invocation leaves it. The arguments have no
  influence on the result.
\<close>

theorem command_quit_idempotent:
  assumes "argss \<noteq> []"
  shows "run_commands command_quit argss c =
           (Returned, c\<lparr>m_should_quit := True\<rparr>,
            replicate (length argss) (Store_should_quit True))
       \<and> run_commands quit_callback argss c =
           (Returned, c\<lparr>m_should_quit := True\<rparr>,
            concat (replicate (length argss)
              [Set_accept_input False, Store_should_quit True, Set_accept_input True]))
       \<and> m_should_quit (fst (snd (run_commands quit_callback argss c))) = True
       \<and> m_engine (fst (snd (run_commands quit_callback argss c))) = m_engine c
       \<and> m_key_callback (fst (snd (run_commands quit_callback argss c))) = m_key_callback c
       \<and> fst (snd (run_commands quit_callback argss c)) = fst (snd (quit_callback args c))
       \<and> fst (snd (run_commands command_quit argss c)) = fst (snd (command_quit args c))
       \<and> command_quit args c = command_quit args' c
       \<and> quit_callback args c = quit_callback args' c"
  using assms
  by (simp add: run_command_quit run_quit_callback quit_callback_eq command_quit_def)

theorem command_quit_idempotent_witness:
  "[[''now''], [], [''a'', ''b'']] \<noteq> ([] :: string list list)
   \<and> run_commands quit_callback [[''now''], [], [''a'', ''b'']]
        \<lparr>m_engine = 5, m_key_callback = 3, m_should_quit = False\<rparr> =
       (Returned, \<lparr>m_engine = (5::nat), m_key_callback = 3, m_should_quit = True\<rparr>,
        [Set_accept_input False, Store_should_quit True, Set_accept_input True,
         Set_accept_input False, Store_should_quit True, Set_accept_input True,
         Set_accept_input False, Store_should_quit True, Set_accept_input True])
   \<and> fst (snd (run_commands quit_callback [[''now''], [], [''a'', ''b'']]
        \<lparr>m_engine = 5, m_key_callback = 3, m_should_quit = False\<rparr>)) =
       fst (snd (quit_callback [''once'']
        \<lparr>m_engine = (5::nat), m_key_callback = 3, m_should_quit = False\<rparr>))"
proof -
  have several: "[[''now''], [], [''a'', ''b'']] \<noteq> ([] :: string list list)"
    by simp
  note quit = command_quit_idempotent [OF several,
      where c = "\<lparr>m_engine = (5::nat), m_key_callback = 3, m_should_quit = False\<rparr>"
        and args = "[''once'']" and args' = "[]"]
  from quit [THEN conjunct2, THEN conjunct1]
  have thrice: "run_commands quit_callback [[''now''], [], [''a'', ''b'']]
      \<lparr>m_engine = 5, m_key_callback = 3, m_should_quit = False\<rparr> =
      (Returned, \<lparr>m_engine = (5::nat), m_key_callback = 3, m_should_quit = True\<rparr>,
       [Set_accept_input False, Store_should_quit True, Set_accept_input True,
        Set_accept_input False, Store_should_quit True, Set_accept_input True,
        Set_accept_input False, Store_should_quit True, Set_accept_input True])"
    by (simp del: run_commands.simps)
  from quit have once: "fst (snd (run_commands quit_callback [[''now''], [], [''a'', ''b'']]
      \<lparr>m_engine = 5, m_key_callback = 3, m_should_quit = False\<rparr>)) =
      fst (snd (quit_callback [''once'']
        \<lparr>m_engine = (5::nat), m_key_callback = 3, m_should_quit = False\<rparr>))"
    by blast
  from several thrice once show ?thesis
    by (intro conjI)
qed

end
